theory Spec2Isabelle
  imports Complex_Main "HOL-Library.Sublist"
begin

section \<open>Data model of the backtester (main.py)\<close>

text \<open>
  The Pydantic model \<open>Rule\<close>: three free-text fields. Python strings are modelled as
  \<open>string\<close>; only the ASCII letters matter to the comparisons made on them.
\<close>

record Rule =
  if_condition :: string
  then_action :: string
  else_action :: string

text \<open>
  What one call of \<open>SMAStrategy.next\<close> reads from the data feed and the indicator:
  \<open>self.data.datetime.date(0).isoformat()\<close>, \<open>self.data.close[0]\<close> and \<open>self.sma[0]\<close>.
  Floats are idealised as reals.
\<close>

record bar =
  bar_date :: string
  bar_close :: real
  bar_sma :: real

text \<open>
  The dictionary appended to \<open>equity_curve\<close>, with keys \<open>date\<close>, \<open>portfolio_value\<close>,
  \<open>price\<close> and \<open>sma\<close>.
\<close>

record equity_point =
  ep_date :: string
  ep_portfolio_value :: real
  ep_price :: real
  ep_sma :: real

text \<open>
  The library's trade object as \<open>notify_trade\<close> reads it (\<open>isclosed\<close>, \<open>dtopen\<close>,
  \<open>dtclose\<close>, \<open>pnl\<close>, \<open>pnlcomm\<close>), and the dictionary stored in \<open>trades\<close> (keys
  \<open>entry_date\<close>, \<open>exit_date\<close>, \<open>pnl\<close>, \<open>pnl_net\<close>).
\<close>

record bt_trade =
  isclosed :: bool
  dtopen :: real
  dtclose :: real
  bt_pnl :: real
  pnlcomm :: real

record trade =
  entry_date :: real
  exit_date :: real
  pnl :: real
  pnl_net :: real

text \<open>
  The strategy object: \<open>self.trades\<close>, \<open>self.equity_curve\<close>, and \<open>broker\<close>, which stands
  for everything on the library's side that the strategy reaches through \<open>self.broker\<close>,
  \<open>self.position\<close>, \<open>self.buy()\<close> and \<open>self.sell()\<close>. Its type \<open>'b\<close> is left open.
\<close>

record 'b strategy =
  broker :: 'b
  trades :: "trade list"
  equity_curve :: "equity_point list"

text \<open>
  What the engine does during \<open>cerebro.run()\<close>, seen from the strategy: it calls \<open>next\<close>,
  it calls \<open>notify_trade\<close>, and in between it works on its own state (order execution,
  marking to market).
\<close>

datatype 'b event = Next bar | NotifyTrade bt_trade | Library "'b \<Rightarrow> 'b"

text \<open>Exceptions, as values.\<close>

datatype py_error = ZeroDivisionError | IndexError | Exception string

text \<open>
  The operations of the backtesting library that main.py calls. The library is not part of
  the repository, so each operation is a parameter: \<open>getvalue\<close> is \<open>broker.getvalue()\<close>,
  \<open>position\<close> the truth value of \<open>self.position\<close>, \<open>buy\<close> and \<open>sell\<close> the calls
  \<open>self.buy()\<close> and \<open>self.sell()\<close>, \<open>setcash\<close> and \<open>setcommission\<close> the broker setters, and
  \<open>schedule\<close> the outcome of \<open>cerebro.run()\<close> for a data frame and an SMA period: the
  exception that the library raises, or the sequence of callbacks that it makes when it
  returns.
\<close>

record ('b, 'd) backtrader =
  getvalue :: "'b \<Rightarrow> real"
  position :: "'b \<Rightarrow> bool"
  buy :: "'b \<Rightarrow> 'b"
  sell :: "'b \<Rightarrow> 'b"
  setcash :: "real \<Rightarrow> 'b \<Rightarrow> 'b"
  setcommission :: "real \<Rightarrow> 'b \<Rightarrow> 'b"
  schedule :: "'d \<Rightarrow> int \<Rightarrow> py_error + 'b event list"

section \<open>Rule evaluation\<close>

text \<open>\<open>str.lower()\<close> on ASCII text: the letters A to Z move to a to z.\<close>

definition lower_char :: "char \<Rightarrow> char" where
  "lower_char c =
     (case map_of (zip ''ABCDEFGHIJKLMNOPQRSTUVWXYZ'' ''abcdefghijklmnopqrstuvwxyz'') c of
        Some d \<Rightarrow> d
      | None \<Rightarrow> c)"

definition lower :: "string \<Rightarrow> string" where
  "lower s = map lower_char s"

text \<open>Python's \<open>pat in s\<close> on strings: \<open>pat\<close> occurs in \<open>s\<close> as a contiguous run.\<close>

fun starts_with :: "'a list \<Rightarrow> 'a list \<Rightarrow> bool" where
  "starts_with s [] = True"
| "starts_with [] (p # ps) = False"
| "starts_with (c # cs) (p # ps) = (c = p \<and> starts_with cs ps)"

fun str_in :: "'a list \<Rightarrow> 'a list \<Rightarrow> bool" where
  "str_in pat [] = (pat = [])"
| "str_in pat (c # cs) = (starts_with (c # cs) pat \<or> str_in pat cs)"

text \<open>\<open>SMAStrategy._evaluate_condition\<close>.\<close>

definition evaluate_condition :: "Rule \<Rightarrow> real \<Rightarrow> real \<Rightarrow> bool" where
  "evaluate_condition rule price sma =
     (let condition = lower (if_condition rule) in
      if str_in ''price > sma'' condition then price > sma
      else if str_in ''price < sma'' condition then price < sma
      else if str_in ''price >= sma'' condition then price \<ge> sma
      else if str_in ''price <= sma'' condition then price \<le> sma
      else price > sma)"

section \<open>The strategy callbacks\<close>

text \<open>The action that \<open>next\<close> selects: lines \<open>condition_met = ...\<close> to the end of the if/else.\<close>

definition chosen_action :: "Rule \<Rightarrow> bar \<Rightarrow> string" where
  "chosen_action rule b =
     (let condition_met = evaluate_condition rule (bar_close b) (bar_sma b) in
      if condition_met then then_action rule else else_action rule)"

text \<open>\<open>SMAStrategy.next\<close>: snapshot, rule evaluation, dispatch.\<close>

definition strategy_next ::
  "('b, 'd) backtrader \<Rightarrow> Rule \<Rightarrow> bar \<Rightarrow> 'b strategy \<Rightarrow> 'b strategy" where
  "strategy_next lib rule b self =
     (let current_price = bar_close b;
          sma_value = bar_sma b;
          self1 = self\<lparr>equity_curve := equity_curve self @
                    [\<lparr>ep_date = bar_date b,
                      ep_portfolio_value = getvalue lib (broker self),
                      ep_price = current_price,
                      ep_sma = sma_value\<rparr>]\<rparr>;
          action = chosen_action rule b
      in if action = ''buy'' \<and> \<not> position lib (broker self1)
         then self1\<lparr>broker := buy lib (broker self1)\<rparr>
         else if action = ''sell'' \<and> position lib (broker self1)
         then self1\<lparr>broker := sell lib (broker self1)\<rparr>
         else self1)"

text \<open>\<open>SMAStrategy.notify_trade\<close>.\<close>

definition notify_trade :: "bt_trade \<Rightarrow> 'b strategy \<Rightarrow> 'b strategy" where
  "notify_trade t self =
     (if isclosed t
      then self\<lparr>trades := trades self @
             [\<lparr>entry_date = dtopen t, exit_date = dtclose t,
               pnl = bt_pnl t, pnl_net = pnlcomm t\<rparr>]\<rparr>
      else self)"

text \<open>One callback of the engine, and the whole of \<open>cerebro.run()\<close>.\<close>

fun engine_step ::
  "('b, 'd) backtrader \<Rightarrow> Rule \<Rightarrow> 'b event \<Rightarrow> 'b strategy \<Rightarrow> 'b strategy" where
  "engine_step lib rule (Next b) self = strategy_next lib rule b self"
| "engine_step lib rule (NotifyTrade t) self = notify_trade t self"
| "engine_step lib rule (Library f) self = self\<lparr>broker := f (broker self)\<rparr>"

fun cerebro_run ::
  "('b, 'd) backtrader \<Rightarrow> Rule \<Rightarrow> 'b event list \<Rightarrow> 'b strategy \<Rightarrow> 'b strategy" where
  "cerebro_run lib rule [] self = self"
| "cerebro_run lib rule (e # es) self = cerebro_run lib rule es (engine_step lib rule e self)"

section \<open>Metrics (run_backtest)\<close>

text \<open>Python's \<open>/\<close> on numbers: it raises when the divisor is zero.\<close>

definition py_truediv :: "real \<Rightarrow> real \<Rightarrow> py_error + real" where
  "py_truediv a b = (if b = 0 then Inl ZeroDivisionError else Inr (a / b))"

text \<open>
  \<open>round(x, 2)\<close>: the nearest multiple of one hundredth, a tie going to the even
  neighbour.
\<close>

definition py_round2 :: "real \<Rightarrow> real" where
  "py_round2 x =
     (let y = x * 100; f = \<lfloor>y\<rfloor>; d = y - of_int f
      in of_int (if d < 1 / 2 then f
                 else if d > 1 / 2 then f + 1
                 else if even f then f else f + 1) / 100)"

text \<open>
  The lines \<open>winning_trades = ...\<close>, \<open>total_trades = ...\<close>, \<open>win_rate = ...\<close>. The
  division is evaluated only in the branch \<open>total_trades > 0\<close> of the conditional
  expression.
\<close>

definition win_rate_of :: "trade list \<Rightarrow> py_error + real" where
  "win_rate_of ts =
     (let winning_trades = length (filter (\<lambda>t. pnl t > 0) ts);
          total_trades = length ts
      in if total_trades > 0
         then (case py_truediv (real winning_trades) (real total_trades) of
                 Inl e \<Rightarrow> Inl e
               | Inr q \<Rightarrow> Inr (q * 100))
         else Inr 0)"

text \<open>
  The numpy operations of the Sharpe computation. They work on floating-point numbers,
  round their results, and answer \<open>inf\<close> or \<open>nan\<close> instead of raising; numpy is not part
  of the repository, so the float type \<open>'f\<close> and each operation are parameters:
  \<open>np_float\<close> takes a portfolio value into an array, \<open>np_sub\<close>, \<open>np_truediv\<close> and
  \<open>np_mul\<close> are \<open>-\<close>, \<open>/\<close> and \<open>*\<close>, \<open>np_ne_zero\<close> is \<open>!= 0\<close>, \<open>np_zero\<close> the literal
  \<open>0\<close> and \<open>np_round2\<close> is \<open>round(x, 2)\<close>.
\<close>

record 'f numpy =
  np_float :: "real \<Rightarrow> 'f"
  np_sub :: "'f \<Rightarrow> 'f \<Rightarrow> 'f"
  np_truediv :: "'f \<Rightarrow> 'f \<Rightarrow> 'f"
  np_mul :: "'f \<Rightarrow> 'f \<Rightarrow> 'f"
  np_sqrt :: "real \<Rightarrow> 'f"
  np_mean :: "'f list \<Rightarrow> 'f"
  np_std :: "'f list \<Rightarrow> 'f"
  np_ne_zero :: "'f \<Rightarrow> bool"
  np_zero :: "'f"
  np_round2 :: "'f \<Rightarrow> 'f"

text \<open>\<open>np.diff(a)\<close>: the differences \<open>a[i+1] - a[i]\<close>, one fewer than the elements.\<close>

definition np_diff :: "'f numpy \<Rightarrow> real list \<Rightarrow> 'f list" where
  "np_diff np a = map2 (\<lambda>x y. np_sub np (np_float np y) (np_float np x)) a (tl a)"

text \<open>
  The lines \<open>returns = np.diff(equity_values) / equity_values[:-1]\<close> and
  \<open>sharpe_ratio = ... if np.std(returns) != 0 else 0\<close>.
\<close>

definition sharpe_ratio_of :: "'f numpy \<Rightarrow> real list \<Rightarrow> 'f" where
  "sharpe_ratio_of np equity_values =
     (let returns = map2 (np_truediv np) (np_diff np equity_values)
                      (map (np_float np) (butlast equity_values))
      in if np_ne_zero np (np_std np returns)
         then np_mul np (np_truediv np (np_mean np returns) (np_std np returns))
                (np_sqrt np 252)
         else np_zero np)"

text \<open>The dictionary that \<open>run_backtest\<close> returns.\<close>

record 'f backtest_result =
  total_return :: real
  win_rate :: real
  number_of_trades :: nat
  result_equity_curve :: "equity_point list"
  final_portfolio_value :: real
  sharpe_ratio :: 'f

text \<open>
  \<open>run_backtest\<close>; \<open>cerebro\<close> is the library state that \<open>bt.Cerebro()\<close> creates. An
  exception raised inside \<open>cerebro.run()\<close> leaves \<open>run_backtest\<close> unhandled.
\<close>

definition run_backtest ::
  "'f numpy \<Rightarrow> ('b, 'd) backtrader \<Rightarrow> 'b \<Rightarrow> 'd \<Rightarrow> int \<Rightarrow> Rule
     \<Rightarrow> py_error + 'f backtest_result" where
  "run_backtest np lib cerebro data sma_period rule =
     (let initial_cash = 10000;
          b0 = setcommission lib (1 / 1000) (setcash lib initial_cash cerebro)
      in case schedule lib data sma_period of
           Inl e \<Rightarrow> Inl e
         | Inr callbacks \<Rightarrow>
             (let strategy = cerebro_run lib rule callbacks
                               \<lparr>broker = b0, trades = [], equity_curve = []\<rparr>;
                  final_value = getvalue lib (broker strategy);
                  total_return = ((final_value - initial_cash) / initial_cash) * 100;
                  total_trades = length (trades strategy);
                  equity_values = map ep_portfolio_value (equity_curve strategy);
                  sharpe = sharpe_ratio_of np equity_values
              in case win_rate_of (trades strategy) of
                   Inl e \<Rightarrow> Inl e
                 | Inr wr \<Rightarrow>
                     Inr \<lparr>total_return = py_round2 total_return,
                          win_rate = py_round2 wr,
                          number_of_trades = total_trades,
                          result_equity_curve = equity_curve strategy,
                          final_portfolio_value = py_round2 final_value,
                          sharpe_ratio = np_round2 np sharpe\<rparr>))"

section \<open>Reference notions used by the statements\<close>

text \<open>
  Case-insensitive substring matching, as a statement about the text itself: some
  contiguous part of \<open>text\<close> equals \<open>pat\<close> once its letters are lowered.
\<close>

definition ci_occurs :: "string \<Rightarrow> string \<Rightarrow> bool" where
  "ci_occurs pat text = (\<exists>pre mid post. text = pre @ mid @ post \<and> lower mid = pat)"

text \<open>The trade notifications of a run that report a closed trade, in order.\<close>

fun closed_notifications :: "'b event list \<Rightarrow> bt_trade list" where
  "closed_notifications [] = []"
| "closed_notifications (NotifyTrade t # es) =
     (if isclosed t then t # closed_notifications es else closed_notifications es)"
| "closed_notifications (e # es) = closed_notifications es"

definition as_trade :: "bt_trade \<Rightarrow> trade" where
  "as_trade t =
     \<lparr>entry_date = dtopen t, exit_date = dtclose t, pnl = bt_pnl t, pnl_net = pnlcomm t\<rparr>"

text \<open>The bars on which the engine calls \<open>next\<close>, in order.\<close>

fun next_calls :: "'b event list \<Rightarrow> bar list" where
  "next_calls [] = []"
| "next_calls (Next b # es) = b # next_calls es"
| "next_calls (e # es) = next_calls es"

text \<open>
  For every call of \<open>next\<close> in a run, the bar together with the portfolio value of the
  state in which the call starts, before anything the call itself does.
\<close>

fun snapshots ::
  "('b, 'd) backtrader \<Rightarrow> Rule \<Rightarrow> 'b event list \<Rightarrow> 'b strategy \<Rightarrow> equity_point list" where
  "snapshots lib rule [] self = []"
| "snapshots lib rule (Next b # es) self =
     \<lparr>ep_date = bar_date b, ep_portfolio_value = getvalue lib (broker self),
      ep_price = bar_close b, ep_sma = bar_sma b\<rparr>
     # snapshots lib rule es (engine_step lib rule (Next b) self)"
| "snapshots lib rule (e # es) self = snapshots lib rule es (engine_step lib rule e self)"

text \<open>Arithmetic mean and population standard deviation of a list of reals.\<close>

definition mean :: "real list \<Rightarrow> real" where
  "mean r = sum_list r / real (length r)"

definition stddev :: "real list \<Rightarrow> real" where
  "stddev r = sqrt (mean (map (\<lambda>x. (x - mean r)\<^sup>2) r))"

text \<open>
  A small instance of the library interface, used to run the callbacks on concrete inputs.
  Its state is a number of units held; it is an example, not a description of the library.
\<close>

definition unit_broker :: "(nat, unit) backtrader" where
  "unit_broker =
     \<lparr>getvalue = real, position = (\<lambda>b. 0 < b), buy = Suc, sell = (\<lambda>b. b - 1),
      setcash = (\<lambda>c b. b), setcommission = (\<lambda>c b. b), schedule = (\<lambda>d p. Inr [])\<rparr>"

text \<open>
  An instance of the numpy interface with exact arithmetic, used to run the Sharpe
  computation on concrete inputs: \<open>None\<close> is \<open>nan\<close>, which a division by zero and the
  mean and deviation of an empty array yield, which every operation passes on, and which
  differs from 0. It is an example, not a description of floating-point rounding.
\<close>

definition exact_numpy :: "real option numpy" where
  "exact_numpy =
     \<lparr>np_float = Some,
      np_sub = (\<lambda>x y. Option.bind x (\<lambda>a. Option.bind y (\<lambda>b. Some (a - b)))),
      np_truediv = (\<lambda>x y. Option.bind x (\<lambda>a. Option.bind y (\<lambda>b.
                     if b = 0 then None else Some (a / b)))),
      np_mul = (\<lambda>x y. Option.bind x (\<lambda>a. Option.bind y (\<lambda>b. Some (a * b)))),
      np_sqrt = (\<lambda>x. Some (sqrt x)),
      np_mean = (\<lambda>a. Option.bind (those a) (\<lambda>xs. if xs = [] then None else Some (mean xs))),
      np_std = (\<lambda>a. Option.bind (those a) (\<lambda>xs. if xs = [] then None else Some (stddev xs))),
      np_ne_zero = (\<lambda>x. x \<noteq> Some 0),
      np_zero = Some 0,
      np_round2 = map_option py_round2\<rparr>"

section \<open>Substring search and lowering\<close>

lemma starts_with_prefix: "starts_with s p \<longleftrightarrow> prefix p s"
  by (induction s p rule: starts_with.induct) auto

lemma str_in_sublist: "str_in pat s \<longleftrightarrow> sublist pat s"
proof (induction s)
  case Nil
  show ?case by simp
next
  case (Cons c cs)
  show ?case
    by (simp only: str_in.simps starts_with_prefix Cons.IH sublist_Cons_right)
qed

lemma sublist_map_iff:
  "sublist pat (map f s) \<longleftrightarrow> (\<exists>pre mid post. s = pre @ mid @ post \<and> map f mid = pat)"
proof
  assume "sublist pat (map f s)"
  then obtain ps ss where "map f s = ps @ pat @ ss"
    by (auto simp: sublist_def)
  then obtain pre rest where split1: "s = pre @ rest" "map f rest = pat @ ss"
    by (metis map_eq_append_conv)
  from split1(2) obtain mid post where "rest = mid @ post" "map f mid = pat"
    by (metis map_eq_append_conv)
  with split1 show "\<exists>pre mid post. s = pre @ mid @ post \<and> map f mid = pat"
    by blast
next
  assume "\<exists>pre mid post. s = pre @ mid @ post \<and> map f mid = pat"
  then obtain pre mid post where "s = pre @ mid @ post" "map f mid = pat"
    by blast
  then show "sublist pat (map f s)"
    by (auto simp: sublist_def)
qed

lemma str_in_lower_ci: "str_in pat (lower text) \<longleftrightarrow> ci_occurs pat text"
  by (simp add: str_in_sublist lower_def ci_occurs_def sublist_map_iff)

text \<open>
  Claim C3. The condition text is matched case-insensitively, by substring, against
  \<open>price > sma\<close>, \<open>price < sma\<close>, \<open>price >= sma\<close> and \<open>price <= sma\<close>, tried in this order;
  a text that contains none of the four is evaluated as \<open>price > sma\<close>. The function is
  total: no text makes it fail.
\<close>

theorem evaluate_condition_matching:
  "evaluate_condition rule price sma =
     (if ci_occurs ''price > sma'' (if_condition rule) then price > sma
      else if ci_occurs ''price < sma'' (if_condition rule) then price < sma
      else if ci_occurs ''price >= sma'' (if_condition rule) then price \<ge> sma
      else if ci_occurs ''price <= sma'' (if_condition rule) then price \<le> sma
      else price > sma)"
  unfolding evaluate_condition_def Let_def str_in_lower_ci by (rule refl)

section \<open>The callback \<open>next\<close>\<close>

lemma strategy_next_equity_curve:
  "equity_curve (strategy_next lib rule b self) = equity_curve self @
     [\<lparr>ep_date = bar_date b, ep_portfolio_value = getvalue lib (broker self),
       ep_price = bar_close b, ep_sma = bar_sma b\<rparr>]"
  by (simp add: strategy_next_def Let_def)

lemma strategy_next_trades: "trades (strategy_next lib rule b self) = trades self"
  by (simp add: strategy_next_def Let_def)

lemma chosen_action_above:
  "chosen_action \<lparr>if_condition = ''price > sma'', then_action = a, else_action = e\<rparr>
     \<lparr>bar_date = d, bar_close = 12, bar_sma = 10\<rparr> = a"
  by (simp add: chosen_action_def evaluate_condition_def lower_def lower_char_def)

text \<open>
  Claim C10. The selected action reaches the broker by exact string comparison: with an
  action other than \<open>buy\<close> the result of \<open>next\<close> does not depend on what \<open>self.buy()\<close>
  does, with an action other than \<open>sell\<close> it does not depend on what \<open>self.sell()\<close> does,
  and with an action that is neither the broker is left as it was.
\<close>

theorem dispatch_exact_strings:
  "(chosen_action rule b \<noteq> ''buy'' \<longrightarrow>
      strategy_next (lib\<lparr>buy := f\<rparr>) rule b self = strategy_next lib rule b self)
   \<and> (chosen_action rule b \<noteq> ''sell'' \<longrightarrow>
      strategy_next (lib\<lparr>sell := g\<rparr>) rule b self = strategy_next lib rule b self)
   \<and> (chosen_action rule b \<noteq> ''buy'' \<and> chosen_action rule b \<noteq> ''sell'' \<longrightarrow>
      broker (strategy_next lib rule b self) = broker self)"
  by (simp add: strategy_next_def Let_def)

theorem dispatch_exact_strings_witness:
  "broker (strategy_next unit_broker
     \<lparr>if_condition = ''price > sma'', then_action = ''Buy'', else_action = ''hold''\<rparr>
     \<lparr>bar_date = ''2022-01-14'', bar_close = 12, bar_sma = 10\<rparr>
     \<lparr>broker = 0, trades = [], equity_curve = []\<rparr>) = 0"
  using dispatch_exact_strings [where lib = unit_broker and f = Suc and g = "\<lambda>b. b - 1"
      and rule = "\<lparr>if_condition = ''price > sma'', then_action = ''Buy'', else_action = ''hold''\<rparr>"
      and b = "\<lparr>bar_date = ''2022-01-14'', bar_close = 12, bar_sma = 10\<rparr>"
      and self = "\<lparr>broker = 0, trades = [], equity_curve = []\<rparr>"]
  by (simp add: chosen_action_above)

text \<open>
  Claim C4. A buy is executed only when no position is open and a sell only when one is:
  while a position is open the result of \<open>next\<close> does not depend on \<open>self.buy()\<close>, while
  none is open it does not depend on \<open>self.sell()\<close>; a buy request while holding and a
  sell request while flat return normally and leave the broker as it was.
\<close>

theorem single_position_guard:
  "(position lib (broker self) \<longrightarrow>
      strategy_next (lib\<lparr>buy := f\<rparr>) rule b self = strategy_next lib rule b self)
   \<and> (\<not> position lib (broker self) \<longrightarrow>
      strategy_next (lib\<lparr>sell := g\<rparr>) rule b self = strategy_next lib rule b self)
   \<and> (chosen_action rule b = ''buy'' \<and> position lib (broker self) \<longrightarrow>
      broker (strategy_next lib rule b self) = broker self)
   \<and> (chosen_action rule b = ''sell'' \<and> \<not> position lib (broker self) \<longrightarrow>
      broker (strategy_next lib rule b self) = broker self)"
  by (simp add: strategy_next_def Let_def)

theorem single_position_guard_witness:
  "broker (strategy_next unit_broker
     \<lparr>if_condition = ''price > sma'', then_action = ''buy'', else_action = ''hold''\<rparr>
     \<lparr>bar_date = ''2022-01-14'', bar_close = 12, bar_sma = 10\<rparr>
     \<lparr>broker = 1, trades = [], equity_curve = []\<rparr>) = 1
   \<and> broker (strategy_next unit_broker
     \<lparr>if_condition = ''price > sma'', then_action = ''sell'', else_action = ''hold''\<rparr>
     \<lparr>bar_date = ''2022-01-14'', bar_close = 12, bar_sma = 10\<rparr>
     \<lparr>broker = 0, trades = [], equity_curve = []\<rparr>) = 0"
  using single_position_guard [where lib = unit_broker and f = Suc and g = "\<lambda>b. b - 1"
      and rule = "\<lparr>if_condition = ''price > sma'', then_action = ''buy'', else_action = ''hold''\<rparr>"
      and b = "\<lparr>bar_date = ''2022-01-14'', bar_close = 12, bar_sma = 10\<rparr>"
      and self = "\<lparr>broker = 1, trades = [], equity_curve = []\<rparr>"]
    single_position_guard [where lib = unit_broker and f = Suc and g = "\<lambda>b. b - 1"
      and rule = "\<lparr>if_condition = ''price > sma'', then_action = ''sell'', else_action = ''hold''\<rparr>"
      and b = "\<lparr>bar_date = ''2022-01-14'', bar_close = 12, bar_sma = 10\<rparr>"
      and self = "\<lparr>broker = 0, trades = [], equity_curve = []\<rparr>"]
  by (simp add: chosen_action_above unit_broker_def)

section \<open>A whole run\<close>

lemma next_calls_length:
  "length (equity_curve (cerebro_run lib rule es self)) =
     length (equity_curve self) + length (next_calls es)"
proof (induction es arbitrary: self)
  case Nil
  show ?case by simp
next
  case (Cons e es)
  show ?case
    by (cases e) (simp_all add: Cons.IH strategy_next_equity_curve notify_trade_def)
qed

lemma cerebro_run_trades:
  "trades (cerebro_run lib rule es self) = trades self @ map as_trade (closed_notifications es)"
proof (induction es arbitrary: self)
  case Nil
  show ?case by simp
next
  case (Cons e es)
  show ?case
    by (cases e) (simp_all add: Cons.IH strategy_next_trades notify_trade_def as_trade_def)
qed

text \<open>
  Claim C9. The equity point that a call of \<open>next\<close> appends carries the portfolio value of
  the state in which the call starts, whatever \<open>self.buy()\<close> and \<open>self.sell()\<close> then do;
  over a whole run the equity curve is the list of these values, one per call of \<open>next\<close>.
\<close>

theorem equity_snapshot_before_action:
  "equity_curve (strategy_next (lib\<lparr>buy := f, sell := g\<rparr>) rule b self) =
     equity_curve self @
       [\<lparr>ep_date = bar_date b, ep_portfolio_value = getvalue lib (broker self),
         ep_price = bar_close b, ep_sma = bar_sma b\<rparr>]
   \<and> equity_curve (cerebro_run lib rule es self) =
       equity_curve self @ snapshots lib rule es self"
proof
  show "equity_curve (strategy_next (lib\<lparr>buy := f, sell := g\<rparr>) rule b self) =
     equity_curve self @
       [\<lparr>ep_date = bar_date b, ep_portfolio_value = getvalue lib (broker self),
         ep_price = bar_close b, ep_sma = bar_sma b\<rparr>]"
    by (simp add: strategy_next_equity_curve)
next
  show "equity_curve (cerebro_run lib rule es self) =
       equity_curve self @ snapshots lib rule es self"
  proof (induction es arbitrary: self)
    case Nil
    show ?case by simp
  next
    case (Cons e es)
    show ?case
      by (cases e) (simp_all add: Cons.IH strategy_next_equity_curve notify_trade_def)
  qed
qed

text \<open>
  Claim C5. Trades enter the result only through \<open>notify_trade\<close> with a closed trade:
  whenever \<open>run_backtest\<close> returns a result, \<open>cerebro.run()\<close> has returned,
  \<open>number_of_trades\<close> is the number of closed-trade notifications of the run, and the
  final value is read from the broker as \<open>cerebro.run()\<close> left it, with no order placed
  after the last callback. A position that is open at the end adds no trade.
\<close>

theorem number_of_trades_closed_only:
  assumes "run_backtest np lib cerebro data sma_period rule = Inr res"
  shows "\<exists>es. schedule lib data sma_period = Inr es
     \<and> number_of_trades res = length (closed_notifications es)
     \<and> final_portfolio_value res =
         py_round2 (getvalue lib (broker (cerebro_run lib rule es
           \<lparr>broker = setcommission lib (1 / 1000) (setcash lib 10000 cerebro),
            trades = [], equity_curve = []\<rparr>)))"
proof (cases "schedule lib data sma_period")
  case (Inl e)
  with assms show ?thesis
    by (simp add: run_backtest_def Let_def)
next
  case (Inr es)
  with assms show ?thesis
    by (auto simp add: run_backtest_def Let_def win_rate_of_def py_truediv_def
        cerebro_run_trades split: if_splits)
qed

theorem number_of_trades_closed_only_witness:
  "\<exists>res. run_backtest exact_numpy
       (unit_broker\<lparr>schedule := \<lambda>d p. Inr
          [Next \<lparr>bar_date = ''2022-01-14'', bar_close = 12, bar_sma = 10\<rparr>,
           NotifyTrade \<lparr>isclosed = False, dtopen = 1, dtclose = 0, bt_pnl = 0, pnlcomm = 0\<rparr>,
           Next \<lparr>bar_date = ''2022-01-18'', bar_close = 12, bar_sma = 10\<rparr>]\<rparr>)
       0 () 2 \<lparr>if_condition = ''price > sma'', then_action = ''buy'', else_action = ''hold''\<rparr>
     = Inr res \<and> number_of_trades res = 0 \<and> final_portfolio_value res = py_round2 1"
proof -
  let ?lib = "unit_broker\<lparr>schedule := \<lambda>d p. Inr
          [Next \<lparr>bar_date = ''2022-01-14'', bar_close = 12, bar_sma = 10\<rparr>,
           NotifyTrade \<lparr>isclosed = False, dtopen = 1, dtclose = 0, bt_pnl = 0, pnlcomm = 0\<rparr>,
           Next \<lparr>bar_date = ''2022-01-18'', bar_close = 12, bar_sma = 10\<rparr>]\<rparr>"
  let ?rule = "\<lparr>if_condition = ''price > sma'', then_action = ''buy'', else_action = ''hold''\<rparr>"
  have "\<exists>res. run_backtest exact_numpy ?lib 0 () 2 ?rule = Inr res"
    by (simp add: run_backtest_def Let_def win_rate_of_def py_truediv_def)
  then obtain res where returned: "run_backtest exact_numpy ?lib 0 () 2 ?rule = Inr res"
    by blast
  from number_of_trades_closed_only [OF returned]
  have "number_of_trades res = 0 \<and> final_portfolio_value res = py_round2 1"
    by (simp add: unit_broker_def strategy_next_def notify_trade_def chosen_action_above Let_def)
  with returned show ?thesis
    by blast
qed

section \<open>Metrics\<close>

text \<open>
  Claim C7. The win rate is the share of trades with gross \<open>pnl > 0\<close> times 100, and 0 when
  there is no trade; its computation returns for every list of trades, so it never raises
  ZeroDivisionError. (The result dictionary holds this value rounded to two decimals.)
\<close>

theorem win_rate_no_division_by_zero:
  "win_rate_of ts =
     Inr (if ts = [] then 0
          else real (length (filter (\<lambda>t. pnl t > 0) ts)) / real (length ts) * 100)"
  by (simp add: win_rate_of_def py_truediv_def Let_def)

text \<open>
  Claim C6 (not met by the code). The Sharpe ratio is to be
  \<open>mean(r) / stddev(r) * sqrt(252)\<close> when the standard deviation of the per-bar returns is
  nonzero and 0 otherwise. With a single equity point there is no return; numpy's
  deviation of the empty array is \<open>nan\<close>, for which \<open>!= 0\<close> holds, and the code then
  evaluates the quotient of the mean and the deviation of the empty array instead of
  answering 0.
\<close>

theorem sharpe_ratio_single_point:
  assumes "np_ne_zero np (np_std np [])"
  shows "sharpe_ratio_of np [v] =
           np_mul np (np_truediv np (np_mean np []) (np_std np [])) (np_sqrt np 252)"
  using assms by (simp add: sharpe_ratio_of_def np_diff_def)

theorem sharpe_ratio_single_point_witness:
  "np_ne_zero exact_numpy (np_std exact_numpy [])
   \<and> sharpe_ratio_of exact_numpy [10000] = None
   \<and> sharpe_ratio_of exact_numpy [10000] \<noteq> np_zero exact_numpy"
proof -
  have guard: "np_ne_zero exact_numpy (np_std exact_numpy [])"
    by (simp add: exact_numpy_def)
  from sharpe_ratio_single_point [OF guard, of 10000]
  have "sharpe_ratio_of exact_numpy [10000] = None"
    by (simp add: exact_numpy_def)
  with guard show ?thesis
    by (simp add: exact_numpy_def)
qed

end
